theory Spec2Isabelle
  imports Complex_Main "HOL-Library.Multiset"
begin

section \<open>Data model of finalproject.py\<close>

text \<open>
  The script keeps its data in pandas frames. A frame is modelled as the list of its rows,
  in row order; a row is a record of the columns the script reads.

  A cell of an object column (\<open>name\<close>, \<open>location.city\<close>, and
  \<open>status.completed.year\<close> once line 39 has written a string into it) is a Python
  value: the missing value NaN, a \<open>str\<close> or an \<open>int\<close>.

  Heights and coordinates are Python floats. A finite float is modelled by the rational
  number it denotes exactly; the arithmetic of the model is exact, so it agrees with the
  script wherever the float operations are exact (as on the values the claims name).
\<close>

datatype cell = NaN | PyStr string | PyInt int

record row =
  name :: cell
  location_city :: cell
  statistics_height :: rat
  latitude :: rat
  longitude :: rat
  is_completed :: bool
  status_completed_year :: cell

type_synonym frame = "row list"

section \<open>Formatting a height (lines 89, 129, 164)\<close>

text \<open>
  \<^verbatim>\<open>lambda x: f"{x:.2f}".rstrip('0').rstrip('.')\<close>

  \<open>f"{x:.2f}"\<close> prints the exact value of the float rounded to two decimals, ties to
  even, with a leading minus sign for a negative value.
\<close>

definition digit_char :: "nat \<Rightarrow> char" where
  "digit_char d = ''0123456789'' ! d"

fun str_nat :: "nat \<Rightarrow> string" where
  "str_nat n = (if n < 10 then [digit_char n] else str_nat (n div 10) @ [digit_char (n mod 10)])"

declare str_nat.simps [simp del]

definition str_int :: "int \<Rightarrow> string" where
  "str_int i = (if i < 0 then CHR ''-'' # str_nat (nat (- i)) else str_nat (nat i))"

definition round_half_even :: "rat \<Rightarrow> int" where
  "round_half_even q =
     (let f = \<lfloor>q\<rfloor>; d = q - of_int f
      in if d < 1 / 2 then f
         else if 1 / 2 < d then f + 1
         else if even f then f else f + 1)"

definition format_2f :: "rat \<Rightarrow> string" where
  "format_2f x =
     (let m = nat (round_half_even (\<bar>x\<bar> * 100))
      in (if x < 0 then ''-'' else '''') @ str_nat (m div 100) @ ''.'' @
         [digit_char (m mod 100 div 10), digit_char (m mod 10)])"

definition rstrip :: "string \<Rightarrow> string \<Rightarrow> string" where
  "rstrip chars s = rev (dropWhile (\<lambda>c. c \<in> set chars) (rev s))"

definition format_height :: "rat \<Rightarrow> string" where
  "format_height x = rstrip ''.'' (rstrip ''0'' (format_2f x))"

section \<open>Loading and cleaning the dataset (lines 9 to 21)\<close>

text \<open>
  \<^verbatim>\<open>
  try:
      df = pd.read_csv('skyscrapers.csv')
  except FileNotFoundError:
      print("File not found.")
  \<close>
  What \<open>pd.read_csv\<close> does is its caller's input: it raises, or it returns a frame.
  The handler catches \<open>FileNotFoundError\<close> only, prints, and goes on; then the name
  \<open>df\<close> is unbound (\<open>None\<close> below), and any other exception leaves the script.
\<close>

datatype py_error = FileNotFoundError | OtherReadError | NameError

definition load_dataset :: "py_error + frame \<Rightarrow> py_error + (frame option \<times> string list)" where
  "load_dataset src =
     (case src of
        Inr f \<Rightarrow> Inr (Some f, [])
      | Inl FileNotFoundError \<Rightarrow> Inr (None, [''File not found.''])
      | Inl e \<Rightarrow> Inl e)"

text \<open>
  Line 15:
  \<^verbatim>\<open>df = df[(df['statistics.height'] > 0) & (df['location.city'].notna())]\<close>
\<close>

definition notna :: "cell \<Rightarrow> bool" where
  "notna c = (c \<noteq> NaN)"

definition drop_invalid :: "frame \<Rightarrow> frame" where
  "drop_invalid f = filter (\<lambda>r. 0 < statistics_height r \<and> notna (location_city r)) f"

text \<open>
  Line 18: \<^verbatim>\<open>df['location.city'] = df['location.city'].astype(str)\<close>.
  \<open>str\<close> leaves a string as it is and prints a number. Line 21 renames the two
  coordinate columns; it changes labels only, and the record has the new labels.
\<close>

fun astype_str :: "cell \<Rightarrow> cell" where
  "astype_str NaN = PyStr ''nan''"
| "astype_str (PyStr s) = PyStr s"
| "astype_str (PyInt i) = PyStr (str_int i)"

definition city_astype_str :: "frame \<Rightarrow> frame" where
  "city_astype_str f = map (\<lambda>r. r\<lparr>location_city := astype_str (location_city r)\<rparr>) f"

section \<open>Sorting and the completed frame (lines 33 to 39)\<close>

text \<open>
  Line 33: \<^verbatim>\<open>df = df.sort_values(by='statistics.height', ascending=False)\<close>.
  The call leaves pandas' sorting algorithm at its default, \<open>kind='quicksort'\<close>, which
  pandas documents as not stable: the result holds the rows of the frame, tallest first,
  and the order of rows of equal height is the library's choice. The model takes
  \<open>sort_values\<close> as a parameter bound by that contract.
\<close>

definition height_descending :: "frame \<Rightarrow> bool" where
  "height_descending f = sorted_wrt (\<lambda>a b. statistics_height b \<le> statistics_height a) f"

definition sort_values_contract :: "(frame \<Rightarrow> frame) \<Rightarrow> bool" where
  "sort_values_contract sort_values =
     (\<forall>f. mset (sort_values f) = mset f \<and> height_descending (sort_values f))"

text \<open>Two sorters within the contract: one keeps rows of equal height in their order,
  the other reverses them.\<close>

definition stable_sort_values :: "frame \<Rightarrow> frame" where
  "stable_sort_values f = sort_key (\<lambda>r. - statistics_height r) f"


definition same_height :: "rat \<Rightarrow> frame \<Rightarrow> frame" where
  "same_height h f = filter (\<lambda>r. statistics_height r = h) f"

text \<open>
  Lines 36 and 39:
  \<^verbatim>\<open>
  completed_df = df[df['status.completed.is completed'] == True]
  completed_df['status.completed.year'] = completed_df['status.completed.year'].replace(0, "Unknown")
  \<close>
  Boolean indexing builds a new frame; the assignment writes the column of that frame.
\<close>

definition replace_unknown :: "frame \<Rightarrow> frame" where
  "replace_unknown f =
     map (\<lambda>r. r\<lparr>status_completed_year :=
            (if status_completed_year r = PyInt 0 then PyStr ''Unknown''
             else status_completed_year r)\<rparr>) f"

record env =
  df :: frame
  completed_df :: frame
  stdout :: "string list"

definition startup :: "(frame \<Rightarrow> frame) \<Rightarrow> py_error + frame \<Rightarrow> py_error + env" where
  "startup sort_values src =
     (case load_dataset src of
        Inl e \<Rightarrow> Inl e
      | Inr (None, out) \<Rightarrow> Inl NameError
      | Inr (Some raw, out) \<Rightarrow>
          (let df1 = drop_invalid raw;
               df2 = city_astype_str df1;
               df3 = sort_values df2;
               completed = filter is_completed df3
           in Inr \<lparr>df = df3, completed_df = replace_unknown completed, stdout = out\<rparr>))"

section \<open>The tallest skyscrapers (lines 24 to 30)\<close>

text \<open>
  \<^verbatim>\<open>
  def get_tallest_skyscrapers(city, top_n=5):
      if city == 'ALL CITIES':
          city_df = df.head(top_n)
      else:
          city_df = df[df['location.city'] == city].head(top_n)
      skyscraper_count = len(city_df)
      return city_df, skyscraper_count
  \<close>
  The function reads the global \<open>df\<close> when it is called (lines 114 and 149), which is
  the sorted frame; the model passes it. \<open>head n\<close> is the first \<open>n\<close> rows, and for
  a negative \<open>n\<close> all rows but the last \<open>-n\<close>.
\<close>

definition head :: "int \<Rightarrow> 'a list \<Rightarrow> 'a list" where
  "head n xs = (if 0 \<le> n then take (nat n) xs else take (length xs - nat (- n)) xs)"

definition in_city :: "string \<Rightarrow> frame \<Rightarrow> frame" where
  "in_city c f = filter (\<lambda>r. location_city r = PyStr c) f"

definition get_tallest_skyscrapers :: "frame \<Rightarrow> string \<Rightarrow> int \<Rightarrow> frame \<times> nat" where
  "get_tallest_skyscrapers d c top_n =
     (let city_df = (if c = ''ALL CITIES'' then head top_n d else head top_n (in_city c d));
          skyscraper_count = length city_df
      in (city_df, skyscraper_count))"

section \<open>Finding the city of a skyscraper (lines 53 to 65)\<close>








section \<open>Page one: completed skyscrapers (lines 69 to 106)\<close>


record display_row =
  Name :: cell
  Height :: string
  Completion_Year :: cell

definition display_df :: "frame \<Rightarrow> display_row list" where
  "display_df f =
     map (\<lambda>r. \<lparr>Name = name r, Height = format_height (statistics_height r),
               Completion_Year = status_completed_year r\<rparr>) f"




section \<open>Page two: tallest skyscrapers (lines 109 to 178)\<close>

text \<open>
  \<^verbatim>\<open>
  top_skyscrapers_default, skyscraper_count_default = get_tallest_skyscrapers(city)
  top_skyscrapers_default['status.completed.year'] =
      top_skyscrapers_default['status.completed.year'].replace(0, "Unknown")
  ...
  top_20_skyscrapers, skyscraper_count_20 = get_tallest_skyscrapers(city, top_n=20)
  top_20_skyscrapers['status.completed.year'] =
      top_20_skyscrapers['status.completed.year'].replace(0, "Unknown")
  \<close>
  The two assignments write the column of the frame that the function returned.
\<close>

record leaderboard =
  top_skyscrapers_default :: frame
  skyscraper_count_default :: nat
  top_20_skyscrapers :: frame
  skyscraper_count_20 :: nat

definition page_two :: "env \<Rightarrow> string \<Rightarrow> env \<times> leaderboard" where
  "page_two e c =
     (let (top5, count5) = get_tallest_skyscrapers (df e) c 5;
          (top20, count20) = get_tallest_skyscrapers (df e) c 20
      in (e, \<lparr>top_skyscrapers_default = replace_unknown top5,
               skyscraper_count_default = count5,
               top_20_skyscrapers = replace_unknown top20,
               skyscraper_count_20 = count20\<rparr>))"

section \<open>Page three: the map (lines 181 to 198)\<close>


section \<open>Example data\<close>

text \<open>A small dataset on which the theorems below are instantiated: two completed Chicago
  towers of equal height (one with completion year 0), a tower whose city reads as a
  number, a tower without a city and a tower of height 0.\<close>

definition skyscraper :: "string \<Rightarrow> cell \<Rightarrow> rat \<Rightarrow> bool \<Rightarrow> int \<Rightarrow> row" where
  "skyscraper n c h done y =
     \<lparr>name = PyStr n, location_city = c, statistics_height = h, latitude = 0, longitude = 0,
      is_completed = done, status_completed_year = PyInt y\<rparr>"

definition example_raw :: frame where
  "example_raw =
     [skyscraper ''Alpha Tower'' (PyStr ''Chicago'') 300 True 0,
      skyscraper ''Beta Tower'' (PyStr ''Chicago'') 300 True 2000,
      skyscraper ''Gamma Tower'' (PyInt 7) 500 False 2010,
      skyscraper ''Delta Tower'' NaN 400 True 1990,
      skyscraper ''Epsilon Tower'' (PyStr ''Boston'') 0 True 1980]"

definition example_df :: frame where
  "example_df =
     [skyscraper ''Gamma Tower'' (PyStr ''7'') 500 False 2010,
      skyscraper ''Alpha Tower'' (PyStr ''Chicago'') 300 True 0,
      skyscraper ''Beta Tower'' (PyStr ''Chicago'') 300 True 2000]"


definition example_env :: env where
  "example_env =
     \<lparr>df = example_df,
      completed_df =
        [(skyscraper ''Alpha Tower'' (PyStr ''Chicago'') 300 True 0)
           \<lparr>status_completed_year := PyStr ''Unknown''\<rparr>,
         skyscraper ''Beta Tower'' (PyStr ''Chicago'') 300 True 2000],
      stdout = []\<rparr>"

text \<open>The frame that \<open>get_tallest_skyscrapers\<close> takes its head of: the whole frame for
  "ALL CITIES", the rows of the city otherwise.\<close>

definition available :: "frame \<Rightarrow> string \<Rightarrow> frame" where
  "available d c = (if c = ''ALL CITIES'' then d else in_city c d)"






section \<open>Properties of the height format\<close>

lemma str_nat_digit: "n < 10 \<Longrightarrow> str_nat n = [digit_char n]"
  by (simp add: str_nat.simps)










lemma round_half_even_tiny: "0 \<le> q \<Longrightarrow> q < 1 / 2 \<Longrightarrow> round_half_even q = 0"
proof -
  assume a: "0 \<le> q" "q < 1 / 2"
  then have f: "\<lfloor>q\<rfloor> = 0" by (simp add: floor_eq_iff)
  show ?thesis using a by (simp add: round_half_even_def Let_def f)
qed

lemma format_2f_tiny: "0 \<le> x \<Longrightarrow> x < 1 / 200 \<Longrightarrow> format_2f x = ''0.00''"
proof -
  assume a: "0 \<le> x" "x < 1 / 200"
  then have "round_half_even (\<bar>x\<bar> * 100) = 0"
    by (intro round_half_even_tiny) auto
  then show ?thesis using a
    by (simp add: format_2f_def Let_def str_nat_digit digit_char_def)
qed

text \<open>
  Claim C10, as amended. A height \<open>x\<close> with \<open>0 < x < 0.005\<close> is printed as "0.00";
  stripping the trailing zeros stops at the decimal point and leaves "0.", and stripping
  the point leaves "0". The height cell of the table shows "0"; it is not blank.
\<close>

theorem format_height_below_half_cent:
  "0 < x \<Longrightarrow> x < 1 / 200 \<Longrightarrow>
     format_2f x = ''0.00'' \<and> rstrip ''0'' (format_2f x) = ''0.'' \<and> format_height x = ''0'' \<and>
     map Height (display_df [r\<lparr>statistics_height := x\<rparr>]) = [''0'']"
  by (simp add: format_height_def rstrip_def format_2f_tiny display_df_def)

theorem format_height_below_half_cent_witness:
  "(0::rat) < 1 / 1024 \<and> (1::rat) / 1024 < 1 / 200 \<and>
   format_2f (1 / 1024) = ''0.00'' \<and> rstrip ''0'' (format_2f (1 / 1024)) = ''0.'' \<and>
   format_height (1 / 1024) = ''0'' \<and>
   map Height (display_df [skyscraper ''Low'' (PyStr ''Chicago'') (1 / 1024) True 2000]) = [''0'']"
proof -
  have lo: "(0::rat) < 1 / 1024" by simp
  have hi: "(1::rat) / 1024 < 1 / 200" by simp
  have r: "(skyscraper ''Low'' (PyStr ''Chicago'') 1 True 2000)\<lparr>statistics_height := 1 / 1024\<rparr> =
           skyscraper ''Low'' (PyStr ''Chicago'') (1 / 1024) True 2000"
    by (simp add: skyscraper_def)
  from format_height_below_half_cent
    [OF lo hi, of "skyscraper ''Low'' (PyStr ''Chicago'') 1 True 2000", unfolded r] lo hi
  show ?thesis by blast
qed

text \<open>The claim as stated (the empty string) fails at the height 1/1024.\<close>

theorem format_height_blank_counterexample:
  "(0::rat) < 1 / 1024 \<and> (1::rat) / 1024 < 1 / 200 \<and> format_height (1 / 1024) \<noteq> ''''"
  by (simp add: format_height_def rstrip_def format_2f_tiny)

section \<open>The sorted store\<close>

lemma startup_df:
  "startup sort_values (Inr raw) = Inr e \<Longrightarrow>
     df e = sort_values (city_astype_str (drop_invalid raw))"
  by (auto simp: startup_def load_dataset_def Let_def)

lemma startup_completed_df:
  "startup sort_values (Inr raw) = Inr e \<Longrightarrow>
     completed_df e = replace_unknown (filter is_completed (df e))"
  by (auto simp: startup_def load_dataset_def Let_def)

lemma contract_mset: "sort_values_contract sv \<Longrightarrow> mset (sv f) = mset f"
  by (simp add: sort_values_contract_def)



lemma height_descending_sort_key_uminus:
  "height_descending (sort_key (\<lambda>r. - statistics_height r) f)"
proof -
  have "sorted (map (\<lambda>r. - statistics_height r) (sort_key (\<lambda>r. - statistics_height r) f))"
    by (rule sorted_sort_key)
  then show ?thesis
    by (simp add: height_descending_def sorted_map)
qed

lemma stable_sort_values_contract: "sort_values_contract stable_sort_values"
  by (simp add: sort_values_contract_def stable_sort_values_def height_descending_sort_key_uminus)



lemma stable_sort_values_stable: "same_height h (stable_sort_values f) = same_height h f"
proof -
  have "filter (\<lambda>r. - statistics_height r = - h) (sort_key (\<lambda>r. - statistics_height r) f) =
        filter (\<lambda>r. - statistics_height r = - h) f"
    by (rule sort_key_stable)
  then show ?thesis
    by (simp add: same_height_def stable_sort_values_def)
qed



subsection \<open>The example dataset, loaded\<close>

lemma example_clean:
  "city_astype_str (drop_invalid example_raw) =
     [skyscraper ''Alpha Tower'' (PyStr ''Chicago'') 300 True 0,
      skyscraper ''Beta Tower'' (PyStr ''Chicago'') 300 True 2000,
      skyscraper ''Gamma Tower'' (PyStr ''7'') 500 False 2010]"
  by (simp add: city_astype_str_def drop_invalid_def example_raw_def skyscraper_def notna_def
      str_int_def str_nat_digit digit_char_def)

lemma example_sorted:
  "stable_sort_values (city_astype_str (drop_invalid example_raw)) = example_df"
  unfolding example_clean
  by (simp add: stable_sort_values_def example_df_def skyscraper_def)

lemma example_startup: "startup stable_sort_values (Inr example_raw) = Inr example_env"
  by (simp add: startup_def load_dataset_def Let_def example_sorted)
     (simp add: example_env_def example_df_def replace_unknown_def skyscraper_def)







section \<open>The tallest skyscrapers: what is returned\<close>


lemma get_tallest_skyscrapers_available:
  "get_tallest_skyscrapers d c n = (head n (available d c), length (head n (available d c)))"
  by (simp add: get_tallest_skyscrapers_def available_def Let_def)













section \<open>Finding the city of a skyscraper: the answer\<close>












section \<open>A dataset that cannot be read\<close>

text \<open>
  Claim C9 asks that a failed load is reported as such and stops the script. The script does
  otherwise when the file is absent: the handler prints "File not found." and goes on with
  \<open>df\<close> unbound, and line 15 then stops the script with a \<open>NameError\<close>. Any other
  failure of \<open>read_csv\<close> is not caught and leaves the script as it is.
\<close>

theorem missing_dataset_ends_in_name_error:
  "load_dataset (Inl FileNotFoundError) = Inr (None, [''File not found.'']) \<and>
   startup sort_values (Inl FileNotFoundError) = Inl NameError \<and>
   startup sort_values (Inl OtherReadError) = Inl OtherReadError"
  by (simp add: startup_def load_dataset_def)

section \<open>The invariant of the loaded rows\<close>













section \<open>Where the year 0 is replaced\<close>

lemma replace_unknown_no_zero:
  "\<forall>r \<in> set (replace_unknown f). status_completed_year r \<noteq> PyInt 0"
  by (auto simp: replace_unknown_def)

lemma years_city_astype_str:
  "map status_completed_year (city_astype_str f) = map status_completed_year f"
  by (simp add: city_astype_str_def)

lemma page_two_env: "fst (page_two e c) = e"
  by (simp add: page_two_def split_beta Let_def)

lemma page_two_default:
  "top_skyscrapers_default (snd (page_two e c)) =
     replace_unknown (fst (get_tallest_skyscrapers (df e) c 5))"
  by (simp add: page_two_def split_beta Let_def)

lemma page_two_20:
  "top_20_skyscrapers (snd (page_two e c)) =
     replace_unknown (fst (get_tallest_skyscrapers (df e) c 20))"
  by (simp add: page_two_def split_beta Let_def)

lemma example_df_years:
  "map status_completed_year (df example_env) = [PyInt 2010, PyInt 0, PyInt 2000]"
  by (simp add: example_env_def example_df_def skyscraper_def)

lemma example_completed_years:
  "map status_completed_year (completed_df example_env) = [PyStr ''Unknown'', PyInt 2000]"
  by (simp add: example_env_def skyscraper_def)

lemma example_completed_names:
  "map name (completed_df example_env) = [PyStr ''Alpha Tower'', PyStr ''Beta Tower'']"
  by (simp add: example_env_def skyscraper_def)

text \<open>
  Claim C8, as amended. Replacing the year 0 by "Unknown" never changes the store: page two
  leaves the environment as it is, the year column of \<open>df\<close> is the year column of the
  cleaned dataset, and a row loaded with the year 0 is in \<open>df\<close> with the year 0. The
  derived frames do not keep the 0: \<open>completed_df\<close> is the completed part of the store
  with every year 0 replaced (line 39, before any page is drawn), and so are the two
  leaderboards of page two (lines 117 and 152); no row of them carries the year 0.
\<close>

theorem store_keeps_raw_year:
  assumes "sort_values_contract sort_values"
    and "startup sort_values (Inr raw) = Inr e"
  shows "fst (page_two e c) = e \<and>
         mset (map status_completed_year (df e)) =
           mset (map status_completed_year (drop_invalid raw)) \<and>
         (\<forall>r \<in> set (drop_invalid raw). status_completed_year r = PyInt 0 \<longrightarrow>
            r\<lparr>location_city := astype_str (location_city r)\<rparr> \<in> set (df e)) \<and>
         completed_df e = replace_unknown (filter is_completed (df e)) \<and>
         (\<forall>r \<in> set (completed_df e). status_completed_year r \<noteq> PyInt 0) \<and>
         (\<forall>r \<in> set (top_skyscrapers_default (snd (page_two e c))).
            status_completed_year r \<noteq> PyInt 0) \<and>
         (\<forall>r \<in> set (top_20_skyscrapers (snd (page_two e c))).
            status_completed_year r \<noteq> PyInt 0)"
proof -
  let ?store = "city_astype_str (drop_invalid raw)"
  have d: "df e = sort_values ?store"
    using assms(2) by (rule startup_df)
  have m: "mset (df e) = mset ?store"
    using assms(1) d by (simp add: contract_mset)
  have "mset (map status_completed_year (df e)) = mset (map status_completed_year ?store)"
    using m by (metis mset_map)
  then have y: "mset (map status_completed_year (df e)) =
           mset (map status_completed_year (drop_invalid raw))"
    by (simp add: years_city_astype_str)
  have s: "set (df e) = set ?store"
    using m by (rule mset_eq_setD)
  have z: "\<forall>r \<in> set (drop_invalid raw). status_completed_year r = PyInt 0 \<longrightarrow>
            r\<lparr>location_city := astype_str (location_city r)\<rparr> \<in> set (df e)"
    unfolding s by (auto simp: city_astype_str_def)
  have cd: "completed_df e = replace_unknown (filter is_completed (df e))"
    using assms(2) by (rule startup_completed_df)
  have c0: "\<forall>r \<in> set (completed_df e). status_completed_year r \<noteq> PyInt 0"
    unfolding cd by (rule replace_unknown_no_zero)
  have t5: "\<forall>r \<in> set (top_skyscrapers_default (snd (page_two e c))).
            status_completed_year r \<noteq> PyInt 0"
    unfolding page_two_default by (rule replace_unknown_no_zero)
  have t20: "\<forall>r \<in> set (top_20_skyscrapers (snd (page_two e c))).
            status_completed_year r \<noteq> PyInt 0"
    unfolding page_two_20 by (rule replace_unknown_no_zero)
  from page_two_env [of e c] y z cd c0 t5 t20 show ?thesis by blast
qed

theorem store_keeps_raw_year_witness:
  "sort_values_contract stable_sort_values \<and>
   startup stable_sort_values (Inr example_raw) = Inr example_env \<and>
   fst (page_two example_env ''Chicago'') = example_env \<and>
   map status_completed_year (df example_env) = [PyInt 2010, PyInt 0, PyInt 2000] \<and>
   completed_df example_env = replace_unknown (filter is_completed (df example_env))"
proof -
  note t = store_keeps_raw_year [OF stable_sort_values_contract example_startup, of "''Chicago''"]
  have "fst (page_two example_env ''Chicago'') = example_env" using t by blast
  moreover have "completed_df example_env = replace_unknown (filter is_completed (df example_env))"
    using t by blast
  ultimately show ?thesis
    using stable_sort_values_contract example_startup example_df_years by blast
qed

text \<open>
  The claim as stated (derived views still carry the raw 0) fails on the example dataset:
  the completed rows of the store have the years 0 and 2000, and \<open>completed_df\<close> and the
  Chicago leaderboard show "Unknown" and 2000.
\<close>

theorem derived_view_year_counterexample:
  "startup stable_sort_values (Inr example_raw) = Inr example_env \<and>
   map status_completed_year (filter is_completed (df example_env)) = [PyInt 0, PyInt 2000] \<and>
   map status_completed_year (completed_df example_env) = [PyStr ''Unknown'', PyInt 2000] \<and>
   map status_completed_year (top_skyscrapers_default (snd (page_two example_env ''Chicago''))) =
     [PyStr ''Unknown'', PyInt 2000]"
  by (simp add: example_startup example_completed_years page_two_default
      get_tallest_skyscrapers_available available_def head_def)
     (simp add: example_env_def example_df_def skyscraper_def in_city_def replace_unknown_def)

section \<open>The average height by completion year\<close>











end
